theory Spec2Isabelle
  imports Complex_Main "HOL-Library.Monad_Syntax"
begin

section \<open>Scalars, points and parameter vectors\<close>

text \<open>
  The three functions of \<^verbatim>\<open>CoordinateTransformations.h\<close> are templates over a
  scalar type \<^verbatim>\<open>T\<close>. The model is polymorphic in the same way: \<^verbatim>\<open>T\<close> is any type
  \<open>'a\<close> of class \<open>field\<close>, with exact arithmetic; \<^verbatim>\<open>T(0)\<close>, \<^verbatim>\<open>T(0.)\<close> and
  \<^verbatim>\<open>T(1)\<close> are \<open>0\<close> and \<open>1\<close>, and \<^verbatim>\<open>==\<close> is equality. Rounding, infinities and
  NaN of a floating-point instance are outside the model.

  A quotient by zero has no value in a field, and HOL's \<open>a / 0 = 0\<close> would hide
  one. The operator \<^verbatim>\<open>/\<close> of \<^verbatim>\<open>T\<close> is therefore \<open>T_div\<close>, which has no result
  when the divisor is zero; a function that divides returns an \<open>option\<close>, and
  \<open>None\<close> says that it divided by zero.

  A local array \<^verbatim>\<open>T p[3]\<close> is a triple. A parameter \<^verbatim>\<open>const T* const\<close> that the
  code indexes is a pointer to an array: a function from the offset to the element
  stored there.
\<close>

definition T_div :: "'a::field \<Rightarrow> 'a \<Rightarrow> 'a option" where
  "T_div a b = (if b = 0 then None else Some (a / b))"

type_synonym 'a vec3 = "'a \<times> 'a \<times> 'a"

type_synonym 'a vec2 = "'a \<times> 'a"

type_synonym 'a params = "nat \<Rightarrow> 'a"

datatype POSE = POSE_X | POSE_Y | POSE_Z | POSE_Rx | POSE_Ry | POSE_Rz

datatype INTRINSICS =
  INTRINSICS_f | INTRINSICS_u0 | INTRINSICS_v0 |
  INTRINSICS_alpha | INTRINSICS_beta | INTRINSICS_theta

text \<open>
  Modelled from the spec: the slot enumerations \<^verbatim>\<open>POSE\<close> and \<^verbatim>\<open>INTRINSICS\<close> are
  declared in \<^verbatim>\<open>StargazerTypes.h\<close>, which is not part of the sources at hand. The
  spec fixes the order of a pose as X, Y, Z, Rx, Ry, Rz and the order of the
  intrinsics as f, u0, v0, alpha, beta, theta (the comment at lines 101--106 of the
  source gives the same order for the intrinsics). The two functions below are the
  casts \<^verbatim>\<open>(int)POSE::s\<close> and \<^verbatim>\<open>(int)INTRINSICS::s\<close>.
\<close>

fun POSE_int :: "POSE \<Rightarrow> nat" where
  "POSE_int POSE_X = 0"
| "POSE_int POSE_Y = 1"
| "POSE_int POSE_Z = 2"
| "POSE_int POSE_Rx = 3"
| "POSE_int POSE_Ry = 4"
| "POSE_int POSE_Rz = 5"

fun INTRINSICS_int :: "INTRINSICS \<Rightarrow> nat" where
  "INTRINSICS_int INTRINSICS_f = 0"
| "INTRINSICS_int INTRINSICS_u0 = 1"
| "INTRINSICS_int INTRINSICS_v0 = 2"
| "INTRINSICS_int INTRINSICS_alpha = 3"
| "INTRINSICS_int INTRINSICS_beta = 4"
| "INTRINSICS_int INTRINSICS_theta = 5"

section \<open>The rotation primitive\<close>

text \<open>
  \<^verbatim>\<open>ceres::AngleAxisRotatePoint(angle_axis, pt, result)\<close> comes from the Ceres
  solver (\<^verbatim>\<open>ceres/rotation.h\<close>), an external library. The transforms take it as a
  parameter \<open>rot\<close>: a function from the rotation vector and the point to the
  rotated point. Every theorem below holds for any such function unless it states
  what it needs of it.
\<close>

type_synonym 'a rotate = "'a vec3 \<Rightarrow> 'a vec3 \<Rightarrow> 'a vec3"

text \<open>
  Modelled from the spec: the rotation primitive itself, which the spec describes
  as "axis-angle rotation: rotate by angle = magnitude of the vector about axis =
  its normalized direction; zero vector \<Rightarrow> identity rotation". For a vector that
  is not zero this is Rodrigues' formula about the unit axis \<open>w\<close>. It is used to
  instantiate the parameter \<open>rot\<close> at concrete inputs.
\<close>

definition AngleAxisRotatePoint :: "real rotate" where
  "AngleAxisRotatePoint angle_axis pt =
    (let (a0, a1, a2) = angle_axis;
         (p0, p1, p2) = pt
     in if a0 = 0 \<and> a1 = 0 \<and> a2 = 0 then pt
        else
          let theta = sqrt (a0 * a0 + a1 * a1 + a2 * a2);
              costheta = cos theta;
              sintheta = sin theta;
              w0 = a0 / theta;
              w1 = a1 / theta;
              w2 = a2 / theta;
              c0 = w1 * p2 - w2 * p1;
              c1 = w2 * p0 - w0 * p2;
              c2 = w0 * p1 - w1 * p0;
              tmp = (w0 * p0 + w1 * p1 + w2 * p2) * (1 - costheta)
          in (p0 * costheta + c0 * sintheta + w0 * tmp,
              p1 * costheta + c1 * sintheta + w1 * tmp,
              p2 * costheta + c2 * sintheta + w2 * tmp))"

section \<open>The transforms\<close>

text \<open>
  Output parameters are cells the caller owns. Each function takes the contents of
  its output cells before the call and returns their contents after it, together
  with the lines the call writes to \<^verbatim>\<open>std::cout\<close>. The cells are taken to be
  distinct from each other and from the inputs.
\<close>

definition divide_warning :: string where
  "divide_warning = ''WARNING; Attempt to divide by 0!''"

text \<open>\<^verbatim>\<open>transformLM2World\<close>, lines 38--63.\<close>

definition transformLM2World ::
  "'a::field rotate \<Rightarrow> 'a \<Rightarrow> 'a \<Rightarrow> 'a params \<Rightarrow> 'a vec3 \<Rightarrow> 'a vec3 \<times> string list" where
  "transformLM2World rot x_in y_in lm_pose out0 =
    (let (x_out, y_out, z_out) = out0;
         p_lm = (x_in, y_in, 0);
         angleAxisLM = (lm_pose (POSE_int POSE_Rx),
                        lm_pose (POSE_int POSE_Ry),
                        lm_pose (POSE_int POSE_Rz));
         (p_w0, p_w1, p_w2) = rot angleAxisLM p_lm;
         p_w0 = p_w0 + lm_pose (POSE_int POSE_X);
         p_w1 = p_w1 + lm_pose (POSE_int POSE_Y);
         p_w2 = p_w2 + lm_pose (POSE_int POSE_Z);
         x_out = p_w0;
         y_out = p_w1;
         z_out = p_w2
     in ((x_out, y_out, z_out), []))"

text \<open>
  \<^verbatim>\<open>transformWorld2Img\<close>, lines 78--124. The call at line 98 passes \<^verbatim>\<open>p_c\<close> both
  as the point and as the result: \<^verbatim>\<open>p_c\<close> is overwritten with the rotation of its
  old contents. The early return at line 116 leaves the output cells as they were.
  The quotient \<open>q\<close> is the subterm \<^verbatim>\<open>... * p_c[1] / T(1)\<close> of line 111.
\<close>

definition transformWorld2Img ::
  "'a::field rotate \<Rightarrow> 'a \<Rightarrow> 'a \<Rightarrow> 'a \<Rightarrow> 'a params \<Rightarrow> 'a params \<Rightarrow> 'a vec2
    \<Rightarrow> ('a vec2 \<times> string list) option" where
  "transformWorld2Img rot x_in y_in z_in camera_pose camera_intrinsics out0 =
    do {
      let (x_out, y_out) = out0;
      let p_w0 = x_in;
      let p_w1 = y_in;
      let p_w2 = z_in;
      let p_c0 = p_w0 - camera_pose (POSE_int POSE_X);
      let p_c1 = p_w1 - camera_pose (POSE_int POSE_Y);
      let p_c2 = p_w2 - camera_pose (POSE_int POSE_Z);
      let angleAxisCam = (- camera_pose (POSE_int POSE_Rx),
                          - camera_pose (POSE_int POSE_Ry),
                          - camera_pose (POSE_int POSE_Rz));
      let (p_c0, p_c1, p_c2) = rot angleAxisCam (p_c0, p_c1, p_c2);
      let p_i0 = camera_intrinsics (INTRINSICS_int INTRINSICS_f)
                   * camera_intrinsics (INTRINSICS_int INTRINSICS_alpha) * p_c0
                 + 0 * p_c1
                 + camera_intrinsics (INTRINSICS_int INTRINSICS_u0) * p_c2;
      q \<leftarrow> T_div (camera_intrinsics (INTRINSICS_int INTRINSICS_f)
                   * camera_intrinsics (INTRINSICS_int INTRINSICS_beta) * p_c1) 1;
      let p_i1 = 0 * p_c0 + q + camera_intrinsics (INTRINSICS_int INTRINSICS_v0) * p_c2;
      let p_i2 = p_c2;
      if p_i2 = 0 then Some ((x_out, y_out), [divide_warning])
      else do {
        p_i0 \<leftarrow> T_div p_i0 p_i2;
        p_i1 \<leftarrow> T_div p_i1 p_i2;
        p_i2 \<leftarrow> T_div p_i2 p_i2;
        let x_out = p_i0;
        let y_out = p_i1;
        Some ((x_out, y_out), [])
      }
    }"

text \<open>
  \<^verbatim>\<open>transformLM2Img\<close>, lines 138--143. The locals \<^verbatim>\<open>x_w\<close>, \<^verbatim>\<open>y_w\<close>, \<^verbatim>\<open>z_w\<close> are
  declared without an initialiser; \<open>w0\<close> is whatever they hold before the first
  call.
\<close>

definition transformLM2Img ::
  "'a::field rotate \<Rightarrow> 'a \<Rightarrow> 'a \<Rightarrow> 'a params \<Rightarrow> 'a params \<Rightarrow> 'a params \<Rightarrow> 'a vec3
    \<Rightarrow> 'a vec2 \<Rightarrow> ('a vec2 \<times> string list) option" where
  "transformLM2Img rot x_in y_in lm_pose camera_pose camera_intrinsics w0 out0 =
    do {
      let ((x_w, y_w, z_w), cout1) = transformLM2World rot x_in y_in lm_pose w0;
      (out1, cout2) \<leftarrow>
        transformWorld2Img rot x_w y_w z_w camera_pose camera_intrinsics out0;
      Some (out1, cout1 @ cout2)
    }"

section \<open>The camera-relative point of the spec\<close>

text \<open>
  Following the spec (World-to-Image transform, steps 1 and 2), not the code: the
  camera-relative point is obtained by subtracting the translation of the camera
  pose from the world point component-wise, and then rotating the translated point
  by the negated rotation vector of the camera pose. The theorems below compare the
  code with it.
\<close>

definition spec_camera_relative :: "'a::field rotate \<Rightarrow> 'a vec3 \<Rightarrow> 'a params \<Rightarrow> 'a vec3" where
  "spec_camera_relative rot p_w camera_pose =
    (let (x, y, z) = p_w;
         translated = (x - camera_pose (POSE_int POSE_X),
                       y - camera_pose (POSE_int POSE_Y),
                       z - camera_pose (POSE_int POSE_Z));
         negated = (- camera_pose (POSE_int POSE_Rx),
                    - camera_pose (POSE_int POSE_Ry),
                    - camera_pose (POSE_int POSE_Rz))
     in rot negated translated)"

section \<open>Facts about the rotation primitive of the spec\<close>

lemma AngleAxisRotatePoint_zero: "AngleAxisRotatePoint (0, 0, 0) pt = pt"
  by (simp add: AngleAxisRotatePoint_def split: prod.splits)

text \<open>A half turn about the z axis, in either direction, negates x and y.\<close>

lemma AngleAxisRotatePoint_z_pi:
  "AngleAxisRotatePoint (0, 0, pi) (p0, p1, p2) = (- p0, - p1, p2)"
  by (simp add: AngleAxisRotatePoint_def Let_def)

lemma AngleAxisRotatePoint_z_neg_pi:
  "AngleAxisRotatePoint (0, 0, - pi) (p0, p1, p2) = (- p0, - p1, p2)"
  by (simp add: AngleAxisRotatePoint_def Let_def)

text \<open>A quarter turn about the z axis, clockwise seen from above.\<close>

lemma AngleAxisRotatePoint_z_neg_quarter:
  "AngleAxisRotatePoint (0, 0, - (pi / 2)) (p0, p1, p2) = (p1, - p0, p2)"
proof -
  have "pi * pi / 4 = (pi / 2)\<^sup>2"
    by (simp add: power2_eq_square)
  then have t: "sqrt (pi * pi / 4) = pi / 2"
    by (simp del: power_divide)
  show ?thesis
    by (simp add: AngleAxisRotatePoint_def Let_def t)
qed

section \<open>The two paths of the World-to-Image transform\<close>

lemma T_div_one: "T_div a 1 = Some a"
  by (simp add: T_div_def)

lemma T_div_nonzero: "b \<noteq> 0 \<Longrightarrow> T_div a b = Some (a / b)"
  by (simp add: T_div_def)

text \<open>
  Whatever the rotation primitive returns, the call takes one of two paths, chosen
  by the third component of the rotated point alone.
\<close>

lemma world2img_cases:
  assumes "spec_camera_relative rot (x, y, z) camera_pose = (px, py, pz)"
  shows "transformWorld2Img rot x y z camera_pose camera_intrinsics out0 =
    (if pz = 0 then Some (out0, [divide_warning])
     else Some (((camera_intrinsics (INTRINSICS_int INTRINSICS_f)
                    * camera_intrinsics (INTRINSICS_int INTRINSICS_alpha) * px
                  + camera_intrinsics (INTRINSICS_int INTRINSICS_u0) * pz) / pz,
                 (camera_intrinsics (INTRINSICS_int INTRINSICS_f)
                    * camera_intrinsics (INTRINSICS_int INTRINSICS_beta) * py
                  + camera_intrinsics (INTRINSICS_int INTRINSICS_v0) * pz) / pz), []))"
  using assms
  by (simp add: transformWorld2Img_def spec_camera_relative_def T_div_one T_div_nonzero
      split: prod.splits)

lemma lm2img_compose:
  assumes "transformLM2World rot x_in y_in lm_pose w1 = ((x_w, y_w, z_w), cout1)"
  shows "transformLM2Img rot x_in y_in lm_pose camera_pose camera_intrinsics w0 out0 =
    transformWorld2Img rot x_w y_w z_w camera_pose camera_intrinsics out0"
proof -
  from assms
  have "transformLM2World rot x_in y_in lm_pose w0 = ((x_w, y_w, z_w), [])"
    by (simp add: transformLM2World_def Let_def split: prod.splits)
  then show ?thesis
    by (cases "transformWorld2Img rot x_w y_w z_w camera_pose camera_intrinsics out0")
      (simp_all add: transformLM2Img_def)
qed

text \<open>
  Neither function that divides ever divides by zero: the divisor is \<^verbatim>\<open>T(1)\<close> at
  line 111 and, at lines 118--120, a depth that the test of line 114 found not to
  be zero.
\<close>

lemma transformWorld2Img_no_division_by_zero:
  "transformWorld2Img rot x y z camera_pose camera_intrinsics out0 \<noteq> None"
proof -
  obtain px py pz where "spec_camera_relative rot (x, y, z) camera_pose = (px, py, pz)"
    by (cases "spec_camera_relative rot (x, y, z) camera_pose")
  then show ?thesis
    by (simp add: world2img_cases)
qed

lemma transformLM2Img_no_division_by_zero:
  "transformLM2Img rot x_in y_in lm_pose camera_pose camera_intrinsics w0 out0 \<noteq> None"
proof -
  obtain x_w y_w z_w cout1
    where "transformLM2World rot x_in y_in lm_pose w0 = ((x_w, y_w, z_w), cout1)"
    by (metis prod.exhaust)
  then show ?thesis
    by (simp add: lm2img_compose transformWorld2Img_no_division_by_zero)
qed

section \<open>World-to-Image: the projection\<close>

text \<open>
  C1. For every world point whose camera-relative point is \<open>(px, py, pz)\<close> with
  \<open>pz\<close> not zero, \<^verbatim>\<open>transformWorld2Img\<close> returns
  \<open>x_out = (f * alpha * px + u0 * pz) / pz\<close> and
  \<open>y_out = (f * beta * py + v0 * pz) / pz\<close>, where f, u0, v0, alpha and beta are
  the slots of the intrinsics. The output cells are two: the third quotient
  \<^verbatim>\<open>p_i[2] / p_i[2]\<close> of line 120 is bound in the code and is no part of the result.
\<close>

theorem transformWorld2Img_projection:
  assumes "spec_camera_relative rot (x, y, z) camera_pose = (px, py, pz)"
    and "pz \<noteq> 0"
  shows "map_option fst (transformWorld2Img rot x y z camera_pose camera_intrinsics out0) =
    Some ((camera_intrinsics (INTRINSICS_int INTRINSICS_f)
             * camera_intrinsics (INTRINSICS_int INTRINSICS_alpha) * px
           + camera_intrinsics (INTRINSICS_int INTRINSICS_u0) * pz) / pz,
          (camera_intrinsics (INTRINSICS_int INTRINSICS_f)
             * camera_intrinsics (INTRINSICS_int INTRINSICS_beta) * py
           + camera_intrinsics (INTRINSICS_int INTRINSICS_v0) * pz) / pz)"
  using assms by (simp add: world2img_cases)

text \<open>
  The camera stands at \<open>(1, 1, 3)\<close>, turned by a half turn about z; the world point
  \<open>(5, 7, 5)\<close> has the camera-relative point \<open>(-4, -6, 2)\<close>.
\<close>

theorem transformWorld2Img_projection_witness:
  "map_option fst (transformWorld2Img AngleAxisRotatePoint 5 7 5 (nth [1, 1, 3, 0, 0, pi])
      (nth [2, 10, 20, 3, 5, 0]) (0, 0)) = Some (- 2, - 10)"
  using transformWorld2Img_projection [of AngleAxisRotatePoint 5 7 5
      "nth [1, 1, 3, 0, 0, pi]" "- 4" "- 6" 2 "nth [2, 10, 20, 3, 5, 0]" "(0, 0)"]
  by (simp add: spec_camera_relative_def AngleAxisRotatePoint_z_neg_pi)

section \<open>World-to-Image: the degenerate depth\<close>

text \<open>
  C2. When the camera-relative depth is exactly zero, \<^verbatim>\<open>transformWorld2Img\<close> writes
  the warning to \<^verbatim>\<open>std::cout\<close> and returns with both output cells as they were
  before the call. The result is a value, so no division by the depth took place:
  the quotients of lines 118--120 are not reached (the only division on this path
  is the one by \<^verbatim>\<open>T(1)\<close> at line 111, before the test). The test is an exact
  comparison with zero: at any other depth the call does not return this way.
\<close>

theorem transformWorld2Img_zero_depth:
  assumes "spec_camera_relative rot (x, y, z) camera_pose = (px, py, pz)"
  shows "(pz = 0 \<longrightarrow>
            transformWorld2Img rot x y z camera_pose camera_intrinsics out0 =
              Some (out0, [divide_warning]))
       \<and> (pz \<noteq> 0 \<longrightarrow>
            map_option snd (transformWorld2Img rot x y z camera_pose camera_intrinsics out0) =
              Some [])"
  using assms by (simp add: world2img_cases)

theorem transformWorld2Img_zero_depth_witness:
  "transformWorld2Img AngleAxisRotatePoint 5 7 3 (nth [1, 1, 3, 0, 0, pi])
      (nth [2, 10, 20, 3, 5, 0]) (7, 8) =
    Some ((7, 8), [''WARNING; Attempt to divide by 0!''])
   \<and> map_option snd (transformWorld2Img AngleAxisRotatePoint 5 7 (3 + 1 / 1000000)
      (nth [1, 1, 3, 0, 0, pi]) (nth [2, 10, 20, 3, 5, 0]) (7, 8)) = Some []"
  using transformWorld2Img_zero_depth [of AngleAxisRotatePoint 5 7 3
      "nth [1, 1, 3, 0, 0, pi]" "- 4" "- 6" 0 "nth [2, 10, 20, 3, 5, 0]" "(7, 8)"]
    transformWorld2Img_zero_depth [of AngleAxisRotatePoint 5 7 "3 + 1 / 1000000"
      "nth [1, 1, 3, 0, 0, pi]" "- 4" "- 6" "1 / 1000000" "nth [2, 10, 20, 3, 5, 0]" "(7, 8)"]
  by (simp add: spec_camera_relative_def AngleAxisRotatePoint_z_neg_pi divide_warning_def)

section \<open>Landmark-to-Image is the composition\<close>

text \<open>
  C3. For every landmark-local point, landmark pose, camera pose and intrinsics
  with a camera-relative depth that is not zero, \<^verbatim>\<open>transformLM2Img\<close> returns
  exactly what \<^verbatim>\<open>transformWorld2Img\<close> returns on the output of
  \<^verbatim>\<open>transformLM2World\<close>: the same image point and the same (empty) output, whatever
  the output cells and the locals held before.
\<close>

theorem transformLM2Img_composition:
  assumes "transformLM2World rot x_in y_in lm_pose w1 = ((x_w, y_w, z_w), cout1)"
    and "spec_camera_relative rot (x_w, y_w, z_w) camera_pose = (px, py, pz)"
    and "pz \<noteq> 0"
  shows "transformLM2Img rot x_in y_in lm_pose camera_pose camera_intrinsics w0 out0 =
    transformWorld2Img rot x_w y_w z_w camera_pose camera_intrinsics out1"
proof -
  have "transformLM2Img rot x_in y_in lm_pose camera_pose camera_intrinsics w0 out0 =
      transformWorld2Img rot x_w y_w z_w camera_pose camera_intrinsics out0"
    using assms(1) by (rule lm2img_compose)
  also have "\<dots> = transformWorld2Img rot x_w y_w z_w camera_pose camera_intrinsics out1"
    using assms(2,3) by (simp add: world2img_cases)
  finally show ?thesis .
qed

text \<open>
  The landmark stands at \<open>(1, 2, 3)\<close>, turned by a half turn about z: its point
  \<open>(4, 5)\<close> is the world point \<open>(-3, -3, 3)\<close>. The camera stands at \<open>(0, 0, 1)\<close>.
\<close>

theorem transformLM2Img_composition_witness:
  "transformLM2World AngleAxisRotatePoint 4 5 (nth [1, 2, 3, 0, 0, pi]) (9, 9, 9) =
     ((- 3, - 3, 3), [])
   \<and> transformLM2Img AngleAxisRotatePoint 4 5 (nth [1, 2, 3, 0, 0, pi])
      (nth [0, 0, 1, 0, 0, 0]) (nth [2, 10, 20, 3, 5, 0]) (0, 0, 0) (7, 8) =
     transformWorld2Img AngleAxisRotatePoint (- 3) (- 3) 3
      (nth [0, 0, 1, 0, 0, 0]) (nth [2, 10, 20, 3, 5, 0]) (0, 0)
   \<and> transformLM2Img AngleAxisRotatePoint 4 5 (nth [1, 2, 3, 0, 0, pi])
      (nth [0, 0, 1, 0, 0, 0]) (nth [2, 10, 20, 3, 5, 0]) (0, 0, 0) (7, 8) =
     Some ((1, 5), [])"
proof -
  have w: "transformLM2World AngleAxisRotatePoint 4 5 (nth [1, 2, 3, 0, 0, pi]) (9, 9, 9) =
      ((- 3, - 3, 3), [])"
    by (simp add: transformLM2World_def AngleAxisRotatePoint_z_pi)
  have c: "spec_camera_relative AngleAxisRotatePoint (- 3, - 3, 3) (nth [0, 0, 1, 0, 0, 0]) =
      (- 3, - 3, 2)"
    by (simp add: spec_camera_relative_def AngleAxisRotatePoint_zero)
  have n: "(2 :: real) \<noteq> 0"
    by simp
  have v: "transformWorld2Img AngleAxisRotatePoint (- 3) (- 3) 3
      (nth [0, 0, 1, 0, 0, 0]) (nth [2, 10, 20, 3, 5, 0]) (0, 0) = Some ((1, 5), [])"
    by (simp add: world2img_cases [OF c])
  show ?thesis
    using transformLM2Img_composition [OF w c n, of "nth [2, 10, 20, 3, 5, 0]" "(0, 0, 0)"
        "(7, 8)" "(0, 0)"] w v
    by simp
qed

section \<open>World-to-Image: the camera-relative point\<close>

text \<open>
  C4. For every world point and camera pose, \<^verbatim>\<open>transformWorld2Img\<close> first subtracts
  the translation slots X, Y, Z of the camera pose from the world point
  component-wise and then rotates the translated point by the negated rotation
  vector \<open>(-Rx, -Ry, -Rz)\<close>, the rotated point replacing the translated one. The
  right-hand side names that point \<open>(px, py, pz)\<close> and gives the whole result of
  the call from it: the test of its depth and the two quotients. The rotation
  primitive is arbitrary, so the equation fixes its two arguments, and a body that
  did not subtract, did not negate, or rotated before it subtracted would not
  satisfy it.
\<close>

theorem transformWorld2Img_camera_point:
  "transformWorld2Img rot x y z camera_pose camera_intrinsics out0 =
    (let translated = (x - camera_pose (POSE_int POSE_X),
                       y - camera_pose (POSE_int POSE_Y),
                       z - camera_pose (POSE_int POSE_Z));
         negated = (- camera_pose (POSE_int POSE_Rx),
                    - camera_pose (POSE_int POSE_Ry),
                    - camera_pose (POSE_int POSE_Rz));
         (px, py, pz) = rot negated translated
     in if pz = 0 then Some (out0, [divide_warning])
        else Some (((camera_intrinsics (INTRINSICS_int INTRINSICS_f)
                       * camera_intrinsics (INTRINSICS_int INTRINSICS_alpha) * px
                     + camera_intrinsics (INTRINSICS_int INTRINSICS_u0) * pz) / pz,
                    (camera_intrinsics (INTRINSICS_int INTRINSICS_f)
                       * camera_intrinsics (INTRINSICS_int INTRINSICS_beta) * py
                     + camera_intrinsics (INTRINSICS_int INTRINSICS_v0) * pz) / pz), []))"
  by (simp add: transformWorld2Img_def T_div_one T_div_nonzero Let_def split: prod.splits)

text \<open>
  The camera stands at \<open>(1, 1, 3)\<close>, turned by a quarter turn about z, and the
  intrinsics are f = alpha = beta = 1, u0 = v0 = 0, so that the image point is
  \<open>(px / pz, py / pz)\<close>. The world point \<open>(5, 7, 5)\<close> is translated to
  \<open>(4, 6, 2)\<close> and turned back by the quarter turn to \<open>(6, -4, 2)\<close>: the image
  point is \<open>(3, -2)\<close>. Without the negation it would be \<open>(-3, 2)\<close>, with the
  rotation before the subtraction \<open>(3, -3)\<close>, without the subtraction
  \<open>(7 / 5, -1)\<close>.
\<close>

theorem transformWorld2Img_camera_point_witness:
  "transformWorld2Img AngleAxisRotatePoint 5 7 5 (nth [1, 1, 3, 0, 0, pi / 2])
      (nth [1, 0, 0, 1, 1, 0]) (0, 0) = Some ((3, - 2), [])"
  using transformWorld2Img_camera_point [of AngleAxisRotatePoint 5 7 5
      "nth [1, 1, 3, 0, 0, pi / 2]" "nth [1, 0, 0, 1, 1, 0]" "(0, 0)"]
  by (simp add: AngleAxisRotatePoint_z_neg_quarter)

section \<open>Landmark-to-World without rotation\<close>

text \<open>
  C5. For every input point \<open>(x, y)\<close> and every landmark pose with a zero rotation
  vector and the translation \<open>(tx, ty, tz)\<close>, \<^verbatim>\<open>transformLM2World\<close> returns
  \<open>(x + tx, y + ty, tz)\<close>; when the translation is zero too it returns \<open>(x, y, 0)\<close>.
  The rotation primitive is asked to leave the point \<open>(x, y, 0)\<close> where it is when
  the rotation vector is zero, as the spec says of it.
\<close>

theorem transformLM2World_zero_rotation:
  assumes "lm_pose (POSE_int POSE_Rx) = 0"
    and "lm_pose (POSE_int POSE_Ry) = 0"
    and "lm_pose (POSE_int POSE_Rz) = 0"
    and "lm_pose (POSE_int POSE_X) = tx"
    and "lm_pose (POSE_int POSE_Y) = ty"
    and "lm_pose (POSE_int POSE_Z) = tz"
    and "rot (0, 0, 0) (x, y, 0) = (x, y, 0)"
  shows "transformLM2World rot x y lm_pose out0 = ((x + tx, y + ty, tz), [])
       \<and> (tx = 0 \<and> ty = 0 \<and> tz = 0 \<longrightarrow>
            transformLM2World rot x y lm_pose out0 = ((x, y, 0), []))"
  using assms by (simp add: transformLM2World_def Let_def split: prod.splits)

theorem transformLM2World_zero_rotation_witness:
  "transformLM2World AngleAxisRotatePoint 4 5 (nth [1, 2, 3, 0, 0, 0]) (9, 9, 9) =
     ((5, 7, 3), [])
   \<and> transformLM2World AngleAxisRotatePoint 4 5 (nth [0, 0, 0, 0, 0, 0]) (9, 9, 9) =
     ((4, 5, 0), [])"
  using transformLM2World_zero_rotation [of "nth [1, 2, 3, 0, 0, 0]" 1 2 3
      AngleAxisRotatePoint 4 5 "(9, 9, 9)"]
    transformLM2World_zero_rotation [of "nth [0, 0, 0, 0, 0, 0]" 0 0 0
      AngleAxisRotatePoint 4 5 "(9, 9, 9)"]
  by (simp add: AngleAxisRotatePoint_zero)

section \<open>The skew slot\<close>

text \<open>
  C6. The slot theta of the intrinsics is never read: two intrinsics vectors that
  agree on f, u0, v0, alpha and beta give the same result of \<^verbatim>\<open>transformWorld2Img\<close>,
  and so of \<^verbatim>\<open>transformLM2Img\<close>, on every input.
\<close>

theorem theta_never_read:
  assumes "intr1 (INTRINSICS_int INTRINSICS_f) = intr2 (INTRINSICS_int INTRINSICS_f)"
    and "intr1 (INTRINSICS_int INTRINSICS_u0) = intr2 (INTRINSICS_int INTRINSICS_u0)"
    and "intr1 (INTRINSICS_int INTRINSICS_v0) = intr2 (INTRINSICS_int INTRINSICS_v0)"
    and "intr1 (INTRINSICS_int INTRINSICS_alpha) = intr2 (INTRINSICS_int INTRINSICS_alpha)"
    and "intr1 (INTRINSICS_int INTRINSICS_beta) = intr2 (INTRINSICS_int INTRINSICS_beta)"
  shows "transformWorld2Img rot x y z camera_pose intr1 out0 =
           transformWorld2Img rot x y z camera_pose intr2 out0
       \<and> transformLM2Img rot x_in y_in lm_pose camera_pose intr1 w0 out0 =
           transformLM2Img rot x_in y_in lm_pose camera_pose intr2 w0 out0"
proof -
  have w: "transformWorld2Img rot a b c camera_pose intr1 out0 =
      transformWorld2Img rot a b c camera_pose intr2 out0" for a b c
    using assms by (simp add: transformWorld2Img_def)
  show ?thesis
    by (simp add: w transformLM2Img_def split: prod.splits)
qed

theorem theta_never_read_witness:
  "transformWorld2Img AngleAxisRotatePoint 5 7 5 (nth [1, 1, 3, 0, 0, pi])
      (nth [2, 10, 20, 3, 5, 0]) (0, 0) =
   transformWorld2Img AngleAxisRotatePoint 5 7 5 (nth [1, 1, 3, 0, 0, pi])
      (nth [2, 10, 20, 3, 5, 90]) (0, 0)
   \<and> transformLM2Img AngleAxisRotatePoint 4 5 (nth [1, 2, 3, 0, 0, pi])
      (nth [1, 1, 3, 0, 0, pi]) (nth [2, 10, 20, 3, 5, 0]) (0, 0, 0) (0, 0) =
   transformLM2Img AngleAxisRotatePoint 4 5 (nth [1, 2, 3, 0, 0, pi])
      (nth [1, 1, 3, 0, 0, pi]) (nth [2, 10, 20, 3, 5, 90]) (0, 0, 0) (0, 0)
   \<and> nth [2, 10, 20, 3, 5, 0 :: real] (INTRINSICS_int INTRINSICS_theta)
      \<noteq> nth [2, 10, 20, 3, 5, 90] (INTRINSICS_int INTRINSICS_theta)"
  using theta_never_read [of "nth [2, 10, 20, 3, 5, 0]" "nth [2, 10, 20, 3, 5, 90]"
      AngleAxisRotatePoint 5 7 5 "nth [1, 1, 3, 0, 0, pi]" "(0, 0)" 4 5
      "nth [1, 2, 3, 0, 0, pi]" "(0, 0, 0)"]
  by simp

section \<open>Landmark-to-Image: the degenerate depth\<close>

text \<open>
  C7. When the call of \<^verbatim>\<open>transformWorld2Img\<close> inside \<^verbatim>\<open>transformLM2Img\<close> meets a
  camera-relative depth of zero, \<^verbatim>\<open>transformLM2Img\<close> leaves its two output cells as
  they were and its output is the one warning of that call: it returns what the
  inner call returns and adds nothing of its own.
\<close>

theorem transformLM2Img_zero_depth:
  assumes "transformLM2World rot x_in y_in lm_pose w1 = ((x_w, y_w, z_w), cout1)"
    and "spec_camera_relative rot (x_w, y_w, z_w) camera_pose = (px, py, pz)"
    and "pz = 0"
  shows "transformLM2Img rot x_in y_in lm_pose camera_pose camera_intrinsics w0 out0 =
           Some (out0, [divide_warning])
       \<and> transformLM2Img rot x_in y_in lm_pose camera_pose camera_intrinsics w0 out0 =
           transformWorld2Img rot x_w y_w z_w camera_pose camera_intrinsics out0"
proof -
  have "transformLM2Img rot x_in y_in lm_pose camera_pose camera_intrinsics w0 out0 =
      transformWorld2Img rot x_w y_w z_w camera_pose camera_intrinsics out0"
    using assms(1) by (rule lm2img_compose)
  moreover have "transformWorld2Img rot x_w y_w z_w camera_pose camera_intrinsics out0 =
      Some (out0, [divide_warning])"
    using assms(2,3) by (simp add: world2img_cases)
  ultimately show ?thesis by simp
qed

text \<open>The landmark of the witness of C3, seen by a camera at \<open>(0, 0, 3)\<close>.\<close>

theorem transformLM2Img_zero_depth_witness:
  "transformLM2Img AngleAxisRotatePoint 4 5 (nth [1, 2, 3, 0, 0, pi])
      (nth [0, 0, 3, 0, 0, 0]) (nth [2, 10, 20, 3, 5, 0]) (0, 0, 0) (7, 8) =
   Some ((7, 8), [''WARNING; Attempt to divide by 0!''])"
  using transformLM2Img_zero_depth [of AngleAxisRotatePoint 4 5 "nth [1, 2, 3, 0, 0, pi]"
      "(9, 9, 9)" "- 3" "- 3" 3 "[]" "nth [0, 0, 3, 0, 0, 0]" "- 3" "- 3" 0
      "nth [2, 10, 20, 3, 5, 0]" "(0, 0, 0)" "(7, 8)"]
  by (simp add: spec_camera_relative_def AngleAxisRotatePoint_z_pi AngleAxisRotatePoint_zero
      transformLM2World_def divide_warning_def)

section \<open>World-to-Image: the example of the spec\<close>

text \<open>
  C8. For a camera pose with zero rotation vector and zero translation and the
  intrinsics f = 1, alpha = 1, beta = 1, u0 = 0, v0 = 0, \<^verbatim>\<open>transformWorld2Img\<close>
  maps the world point \<open>(0, 0, 5)\<close> to the image point \<open>(0, 0)\<close>. The scalar type
  has characteristic zero, so that 5 is not 0, and the rotation primitive is asked
  to leave \<open>(0, 0, 5)\<close> where it is when the rotation vector is zero.
\<close>

theorem transformWorld2Img_example:
  fixes camera_pose :: "('a::field_char_0) params"
  assumes "camera_pose (POSE_int POSE_X) = 0"
    and "camera_pose (POSE_int POSE_Y) = 0"
    and "camera_pose (POSE_int POSE_Z) = 0"
    and "camera_pose (POSE_int POSE_Rx) = 0"
    and "camera_pose (POSE_int POSE_Ry) = 0"
    and "camera_pose (POSE_int POSE_Rz) = 0"
    and "camera_intrinsics (INTRINSICS_int INTRINSICS_f) = 1"
    and "camera_intrinsics (INTRINSICS_int INTRINSICS_alpha) = 1"
    and "camera_intrinsics (INTRINSICS_int INTRINSICS_beta) = 1"
    and "camera_intrinsics (INTRINSICS_int INTRINSICS_u0) = 0"
    and "camera_intrinsics (INTRINSICS_int INTRINSICS_v0) = 0"
    and "rot (0, 0, 0) (0, 0, 5) = (0, 0, 5)"
  shows "transformWorld2Img rot 0 0 5 camera_pose camera_intrinsics out0 = Some ((0, 0), [])"
  using assms by (simp add: transformWorld2Img_def T_div_def)

theorem transformWorld2Img_example_witness:
  "transformWorld2Img AngleAxisRotatePoint 0 0 5 (nth [0, 0, 0, 0, 0, 0])
      (nth [1, 0, 0, 1, 1, 0]) (7, 8) = Some ((0, 0), [])"
  using transformWorld2Img_example [of "nth [0, 0, 0, 0, 0, 0]" "nth [1, 0, 0, 1, 1, 0]"
      AngleAxisRotatePoint "(7, 8)"]
  by (simp add: AngleAxisRotatePoint_zero)

section \<open>Landmark-to-World is total\<close>

text \<open>
  C9. \<^verbatim>\<open>transformLM2World\<close> is total: for every input point and every landmark pose
  it writes all three output cells, with values that do not depend on what the
  cells held before, and writes nothing to \<^verbatim>\<open>std::cout\<close>. It has no branch and no
  division, so its model has no failure value.
\<close>

theorem transformLM2World_total:
  "\<exists>x_out y_out z_out.
      \<forall>out0. transformLM2World rot x_in y_in lm_pose out0 = ((x_out, y_out, z_out), [])"
  by (simp add: transformLM2World_def Let_def split: prod.splits)

section \<open>World-to-Image: every depth but zero\<close>

text \<open>
  C10. Only a depth of exactly zero is degenerate. For every input with a
  camera-relative depth that is not zero, a negative depth included,
  \<^verbatim>\<open>transformWorld2Img\<close> divides by the depth, writes both output cells and writes
  nothing to \<^verbatim>\<open>std::cout\<close>; the result does not depend on what the cells held
  before. There is no test for a point behind the camera.
\<close>

theorem transformWorld2Img_nonzero_depth:
  assumes "spec_camera_relative rot (x, y, z) camera_pose = (px, py, pz)"
    and "pz \<noteq> 0"
  shows "transformWorld2Img rot x y z camera_pose camera_intrinsics out0 =
    Some (((camera_intrinsics (INTRINSICS_int INTRINSICS_f)
              * camera_intrinsics (INTRINSICS_int INTRINSICS_alpha) * px
            + camera_intrinsics (INTRINSICS_int INTRINSICS_u0) * pz) / pz,
           (camera_intrinsics (INTRINSICS_int INTRINSICS_f)
              * camera_intrinsics (INTRINSICS_int INTRINSICS_beta) * py
            + camera_intrinsics (INTRINSICS_int INTRINSICS_v0) * pz) / pz), [])"
  using assms by (simp add: world2img_cases)

text \<open>The camera of the witness of C1; the world point \<open>(5, 7, 1)\<close> is behind it.\<close>

theorem transformWorld2Img_nonzero_depth_witness:
  "transformWorld2Img AngleAxisRotatePoint 5 7 1 (nth [1, 1, 3, 0, 0, pi])
      (nth [2, 10, 20, 3, 5, 0]) (7, 8) = Some ((22, 50), [])"
  using transformWorld2Img_nonzero_depth [of AngleAxisRotatePoint 5 7 1
      "nth [1, 1, 3, 0, 0, pi]" "- 4" "- 6" "- 2" "nth [2, 10, 20, 3, 5, 0]" "(7, 8)"]
  by (simp add: spec_camera_relative_def AngleAxisRotatePoint_z_neg_pi)

end
